theory Spec2Isabelle
  imports Complex_Main
begin

section \<open>Configuration: module globals of \<^verbatim>\<open>snowpark_pipeline.py\<close>\<close>

text \<open>
  The process environment is a partial map from variable names to values.
  \<^verbatim>\<open>os.getenv(key, default)\<close> returns the value of a set variable (also an
  empty one) and the default only when the variable is unset.
\<close>

type_synonym environ = "string \<rightharpoonup> string"

definition getenv :: "environ \<Rightarrow> string \<Rightarrow> string \<Rightarrow> string" where
  "getenv env key dflt = (case env key of None \<Rightarrow> dflt | Some v \<Rightarrow> v)"

text \<open>
  The ten module-level names, in the order the module assigns them: seven read
  from the environment, three fully qualified names built from them by the
  f-strings \<^verbatim>\<open>f"{DB}.{SCHEMA}.{...}"\<close>.
\<close>

record globals =
  DB :: string
  SCHEMA :: string
  FILE_FORMAT_NAME :: string
  STAGE_NAME :: string
  TABLE_NAME :: string
  S3_URL :: string
  COPY_PATTERN :: string
  FQ_FILE_FORMAT :: string
  FQ_STAGE :: string
  FQ_TABLE :: string

definition import_module :: "environ \<Rightarrow> globals" where
  "import_module env =
     (let db = getenv env ''SF_DB'' ''DATA_PIPELINE_DB'';
          schema = getenv env ''SF_SCHEMA'' ''CSV_FILES'';
          file_format_name = getenv env ''SF_FILE_FORMAT'' ''csv_format'';
          stage_name = getenv env ''SF_STAGE'' ''aws_stage'';
          table_name = getenv env ''SF_TABLE'' ''ORDERS'';
          s3_url = getenv env ''S3_URL'' ''s3://bucketsnowflakes3/'';
          copy_pattern = getenv env ''COPY_PATTERN'' ''.*Order.*''
      in \<lparr> DB = db, SCHEMA = schema, FILE_FORMAT_NAME = file_format_name,
           STAGE_NAME = stage_name, TABLE_NAME = table_name, S3_URL = s3_url,
           COPY_PATTERN = copy_pattern,
           FQ_FILE_FORMAT = db @ ''.'' @ schema @ ''.'' @ file_format_name,
           FQ_STAGE = db @ ''.'' @ schema @ ''.'' @ stage_name,
           FQ_TABLE = db @ ''.'' @ schema @ ''.'' @ table_name \<rparr>)"

section \<open>The Snowpark session as \<^verbatim>\<open>main\<close> uses it\<close>

text \<open>
  \<^verbatim>\<open>main\<close> builds lazy data frames (\<^verbatim>\<open>session.sql\<close>, \<^verbatim>\<open>session.table\<close>,
  \<^verbatim>\<open>with_column\<close>, \<^verbatim>\<open>limit\<close>) and runs each with \<^verbatim>\<open>collect()\<close>. A data frame is
  the description of a query; \<^verbatim>\<open>collect\<close> is the only operation that reaches the
  warehouse. It may raise, and it may change the warehouse.
\<close>

datatype column = Col string | Cast column string

datatype dataframe =
    Sql string
  | Table string
  | With_column dataframe string column
  | Limit dataframe nat

datatype val = VNull | VStr string | VNum rat | VDouble rat

type_synonym row = "(string \<times> val) list"

datatype error =
    Syntax_error
  | Already_exists string
  | Not_found string
  | Unsupported string
  | Load_failed
  | Rejected

type_synonym ('w, 'a) action = "'w \<Rightarrow> (error + 'a) \<times> 'w"

type_synonym 'w session = "dataframe \<Rightarrow> ('w, row list) action"

definition bind :: "('w, 'a) action \<Rightarrow> ('a \<Rightarrow> ('w, 'b) action) \<Rightarrow> ('w, 'b) action" where
  "bind m f w = (case m w of (Inl e, w') \<Rightarrow> (Inl e, w') | (Inr x, w') \<Rightarrow> f x w')"

text \<open>\<^verbatim>\<open>_exec\<close>: run the statement, drop the rows it returns.\<close>

definition exec :: "'w session \<Rightarrow> string \<Rightarrow> ('w, unit) action" where
  "exec session sql = bind (session (Sql sql)) (\<lambda>_ w. (Inr (), w))"

subsection \<open>The statements of \<^verbatim>\<open>main\<close>, character for character\<close>

definition sql_create_database :: "globals \<Rightarrow> string" where
  "sql_create_database g = ''CREATE DATABASE IF NOT EXISTS '' @ DB g"

definition sql_create_schema :: "globals \<Rightarrow> string" where
  "sql_create_schema g = ''CREATE SCHEMA IF NOT EXISTS '' @ DB g @ ''.'' @ SCHEMA g"

definition sql_create_file_format :: "globals \<Rightarrow> string" where
  "sql_create_file_format g =
     ''\<newline>        CREATE FILE FORMAT IF NOT EXISTS '' @ FQ_FILE_FORMAT g @
     ''\<newline>        TYPE = CSV'' @
     ''\<newline>        FIELD_DELIMITER = '' @ [CHR 0x27] @ '','' @ [CHR 0x27] @
     ''\<newline>        SKIP_HEADER = 1'' @
     ''\<newline>        EMPTY_FIELD_AS_NULL = TRUE'' @
     ''\<newline>        ''"

definition sql_create_stage :: "globals \<Rightarrow> string" where
  "sql_create_stage g =
     ''\<newline>        CREATE STAGE IF NOT EXISTS '' @ FQ_STAGE g @
     ''\<newline>        URL = '' @ [CHR 0x27] @ S3_URL g @ [CHR 0x27] @
     ''\<newline>        FILE_FORMAT = (FORMAT_NAME = '' @ FQ_FILE_FORMAT g @ '')'' @
     ''\<newline>        ''"

definition sql_create_table :: "globals \<Rightarrow> string" where
  "sql_create_table g =
     ''\<newline>        CREATE TABLE IF NOT EXISTS '' @ FQ_TABLE g @ ''('' @
     ''\<newline>            ID STRING,'' @
     ''\<newline>            Amount NUMBER,'' @
     ''\<newline>            Profit NUMBER,'' @
     ''\<newline>            Quantity NUMBER,'' @
     ''\<newline>            Category STRING,'' @
     ''\<newline>            Sub_Category STRING'' @
     ''\<newline>        )'' @
     ''\<newline>        ''"

definition sql_copy_into :: "globals \<Rightarrow> string" where
  "sql_copy_into g =
     ''\<newline>        COPY INTO '' @ FQ_TABLE g @
     ''\<newline>        FROM @'' @ FQ_STAGE g @
     ''\<newline>        FILE_FORMAT = (FORMAT_NAME = '' @ FQ_FILE_FORMAT g @ '')'' @
     ''\<newline>        PATTERN = '' @ [CHR 0x27] @ COPY_PATTERN g @ [CHR 0x27] @
     ''\<newline>        ON_ERROR = CONTINUE'' @
     ''\<newline>        ''"

definition df_transformed :: "globals \<Rightarrow> dataframe" where
  "df_transformed g =
     With_column
       (With_column (Table (FQ_TABLE g)) ''Amount_num'' (Cast (Col ''Amount'') ''DOUBLE''))
       ''Profit_num'' (Cast (Col ''Profit'') ''DOUBLE'')"

definition main :: "globals \<Rightarrow> 'w session \<Rightarrow> ('w, row list) action" where
  "main g session =
     bind (exec session (sql_create_database g)) (\<lambda>_.
     bind (exec session (sql_create_schema g)) (\<lambda>_.
     bind (exec session (sql_create_file_format g)) (\<lambda>_.
     bind (exec session (sql_create_stage g)) (\<lambda>_.
     bind (exec session (sql_create_table g)) (\<lambda>_.
     bind (exec session (sql_copy_into g)) (\<lambda>_.
     session (Limit (df_transformed g) 10)))))))"

section \<open>A reference warehouse\<close>

text \<open>
  Modelled from the spec: the warehouse behind the session, which is an external
  service and not part of this repository. The reference warehouse reads the
  statement text itself, so every property of \<^verbatim>\<open>main\<close> proved against it depends
  on the characters \<^verbatim>\<open>main\<close> sends. It follows the spec's words: an idempotent
  create succeeds whether or not the object exists; a create without
  \<^verbatim>\<open>IF NOT EXISTS\<close> fails on an existing object; the bulk load appends the rows
  of every staged file whose name matches the pattern, and under
  \<^verbatim>\<open>ON_ERROR = CONTINUE\<close> skips the rows that fail to parse; a read returns the
  rows in storage order. The fields of a returned row carry their names in
  upper case, as the warehouse reports unquoted identifiers; object names are
  compared as \<^verbatim>\<open>main\<close> writes them. Privileges and the parent checks between
  database, schema and object are not modelled.
\<close>

subsection \<open>Lexical analysis of a statement\<close>

datatype token = Word string | Punct char | Lit string | Unterminated

definition quote :: char where
  "quote = CHR 0x27"

definition is_space :: "char \<Rightarrow> bool" where
  "is_space c = (c = CHR '' '' \<or> c = CHR 0x0A \<or> c = CHR 0x09 \<or> c = CHR 0x0D)"

definition is_punct :: "char \<Rightarrow> bool" where
  "is_punct c = (c = CHR ''('' \<or> c = CHR '')'' \<or> c = CHR '','' \<or> c = CHR ''='' \<or>
                 c = CHR ''@'' \<or> c = CHR '';'')"

definition word_char :: "char \<Rightarrow> bool" where
  "word_char c = (\<not> is_space c \<and> \<not> is_punct c \<and> c \<noteq> quote)"

definition flush :: "string \<Rightarrow> token list" where
  "flush acc = (if acc = [] then [] else [Word acc])"

datatype mode = Code | Quoted

fun lexer :: "mode \<Rightarrow> string \<Rightarrow> string \<Rightarrow> token list" where
  "lexer Code acc [] = flush acc"
| "lexer Quoted acc [] = [Unterminated]"
| "lexer Code acc (c # cs) =
     (if c = quote then flush acc @ lexer Quoted [] cs
      else if is_space c then flush acc @ lexer Code [] cs
      else if is_punct c then flush acc @ Punct c # lexer Code [] cs
      else lexer Code (acc @ [c]) cs)"
| "lexer Quoted acc (c # cs) =
     (if c = quote then Lit acc # lexer Code [] cs
      else lexer Quoted (acc @ [c]) cs)"

definition tokens :: "string \<Rightarrow> token list" where
  "tokens s = lexer Code [] s"

subsection \<open>Statements\<close>

datatype optval = Opt_word string | Opt_lit string | Opt_format string

type_synonym options = "(string \<times> optval) list"

datatype stmt =
    Create_database bool string
  | Create_schema bool string
  | Create_file_format bool string options
  | Create_stage bool string options
  | Create_table bool string "(string \<times> string) list"
  | Copy_into string string options

text \<open>
  Options: \<^verbatim>\<open>KEY = word\<close>, \<^verbatim>\<open>KEY = 'literal'\<close> or
  \<^verbatim>\<open>KEY = (FORMAT_NAME = name)\<close>, any number of them.
\<close>

fun parse_options :: "token list \<Rightarrow> options option" where
  "parse_options [] = Some []"
| "parse_options (Word k # Punct e # Word v # rest) =
     (if e = CHR ''='' then map_option (Cons (k, Opt_word v)) (parse_options rest) else None)"
| "parse_options (Word k # Punct e # Lit v # rest) =
     (if e = CHR ''='' then map_option (Cons (k, Opt_lit v)) (parse_options rest) else None)"
| "parse_options (Word k # Punct e # Punct l # Word f # Punct e' # Word n # Punct r # rest) =
     (if e = CHR ''='' \<and> l = CHR ''('' \<and> f = ''FORMAT_NAME'' \<and> e' = CHR ''='' \<and> r = CHR '')''
      then map_option (Cons (k, Opt_format n)) (parse_options rest) else None)"
| "parse_options _ = None"

text \<open>Column declarations: \<^verbatim>\<open>( name type , ... , name type )\<close>.\<close>

fun parse_columns :: "token list \<Rightarrow> (string \<times> string) list option" where
  "parse_columns [Word c, Word t, Punct p] = (if p = CHR '')'' then Some [(c, t)] else None)"
| "parse_columns (Word c # Word t # Punct p # rest) =
     (if p = CHR '','' then map_option (Cons (c, t)) (parse_columns rest) else None)"
| "parse_columns _ = None"

fun strip_keywords :: "string list \<Rightarrow> token list \<Rightarrow> token list option" where
  "strip_keywords [] ts = Some ts"
| "strip_keywords (k # ks) (Word w # ts) = (if w = k then strip_keywords ks ts else None)"
| "strip_keywords (k # ks) _ = None"

text \<open>
  After \<^verbatim>\<open>CREATE <kind>\<close>: an optional \<^verbatim>\<open>IF NOT EXISTS\<close>, then the name.
  Returns the flag, the name and the tokens that follow.
\<close>

definition parse_target :: "token list \<Rightarrow> (bool \<times> string \<times> token list) option" where
  "parse_target ts =
     (case strip_keywords [''IF'', ''NOT'', ''EXISTS''] ts of
        Some (Word n # rest) \<Rightarrow> Some (True, n, rest)
      | Some _ \<Rightarrow> None
      | None \<Rightarrow> (case ts of Word n # rest \<Rightarrow> Some (False, n, rest) | _ \<Rightarrow> None))"

definition parse_create :: "string list \<Rightarrow> token list \<Rightarrow> (bool \<times> string \<times> token list) option" where
  "parse_create kind ts =
     (case strip_keywords (''CREATE'' # kind) ts of
        None \<Rightarrow> None
      | Some rest \<Rightarrow> parse_target rest)"

definition parse_copy :: "token list \<Rightarrow> stmt option" where
  "parse_copy ts =
     (case strip_keywords [''COPY'', ''INTO''] ts of
        Some (Word t # Word f # Punct a # Word s # rest) \<Rightarrow>
          (if f = ''FROM'' \<and> a = CHR ''@''
           then map_option (Copy_into t s) (parse_options rest) else None)
      | _ \<Rightarrow> None)"

definition parse_tokens :: "token list \<Rightarrow> stmt option" where
  "parse_tokens ts =
     (case parse_create [''DATABASE''] ts of
        Some (ine, n, rest) \<Rightarrow> (if rest = [] then Some (Create_database ine n) else None)
      | None \<Rightarrow>
     (case parse_create [''SCHEMA''] ts of
        Some (ine, n, rest) \<Rightarrow> (if rest = [] then Some (Create_schema ine n) else None)
      | None \<Rightarrow>
     (case parse_create [''FILE'', ''FORMAT''] ts of
        Some (ine, n, rest) \<Rightarrow> map_option (Create_file_format ine n) (parse_options rest)
      | None \<Rightarrow>
     (case parse_create [''STAGE''] ts of
        Some (ine, n, rest) \<Rightarrow> map_option (Create_stage ine n) (parse_options rest)
      | None \<Rightarrow>
     (case parse_create [''TABLE''] ts of
        Some (ine, n, Punct p # rest) \<Rightarrow>
          (if p = CHR ''('' then map_option (Create_table ine n) (parse_columns rest) else None)
      | Some _ \<Rightarrow> None
      | None \<Rightarrow> parse_copy ts)))))"

definition parse_sql :: "string \<Rightarrow> stmt option" where
  "parse_sql s = parse_tokens (tokens s)"

subsection \<open>Warehouse state\<close>

datatype coltype = T_string | T_number

definition coltype_of :: "string \<Rightarrow> coltype option" where
  "coltype_of t =
     (if t = ''STRING'' then Some T_string
      else if t = ''NUMBER'' then Some T_number
      else None)"

record file_format =
  format_type :: string
  field_delimiter :: string
  skip_header :: nat
  empty_field_as_null :: bool

record stage =
  stage_url :: string
  stage_file_format :: "string option"

record table =
  table_columns :: "(string \<times> coltype) list"
  table_rows :: "val list list"

text \<open>
  Every kind of object is a list in creation order, so that a duplicate would
  be visible. \<open>storage\<close> is the object store outside the warehouse: for each
  URL the files under it, as name and text.
\<close>

record world =
  databases :: "string list"
  schemas :: "string list"
  file_formats :: "(string \<times> file_format) list"
  stages :: "(string \<times> stage) list"
  tables :: "(string \<times> table) list"
  storage :: "(string \<times> (string \<times> string) list) list"


text \<open>
  What the warehouse's dialect decides and the spec leaves open: which text is
  a number, which text is a floating-point number, which file names a pattern
  matches. \<open>VDouble q\<close> stands for the floating-point value that the
  warehouse's conversion gives for \<open>q\<close>; no floating-point arithmetic is
  performed on it.
\<close>

record dialect =
  number_of_text :: "string \<Rightarrow> rat option"
  double_of_text :: "string \<Rightarrow> rat option"
  matches :: "string \<Rightarrow> string \<Rightarrow> bool"

subsection \<open>Creating objects\<close>

text \<open>
  Modelled from the spec: the idempotent create of the glossary, which succeeds
  whether or not the object exists and leaves an existing object as it is, and
  beside it the plain create, which fails on an existing object.
\<close>

definition create_name :: "bool \<Rightarrow> string \<Rightarrow> string list \<Rightarrow> error + string list" where
  "create_name if_not_exists n xs =
     (if n \<in> set xs then (if if_not_exists then Inr xs else Inl (Already_exists n))
      else Inr (xs @ [n]))"

definition create_entry :: "bool \<Rightarrow> string \<Rightarrow> 'a \<Rightarrow> (string \<times> 'a) list \<Rightarrow> error + (string \<times> 'a) list" where
  "create_entry if_not_exists n v xs =
     (if n \<in> set (map fst xs) then (if if_not_exists then Inr xs else Inl (Already_exists n))
      else Inr (xs @ [(n, v)]))"

fun index_of :: "'a \<Rightarrow> 'a list \<Rightarrow> nat option" where
  "index_of x [] = None"
| "index_of x (y # ys) = (if x = y then Some 0 else map_option Suc (index_of x ys))"

definition digit_of :: "char \<Rightarrow> nat option" where
  "digit_of c = index_of c ''0123456789''"

fun digits_value :: "nat \<Rightarrow> string \<Rightarrow> nat option" where
  "digits_value acc [] = Some acc"
| "digits_value acc (c # cs) =
     (case digit_of c of None \<Rightarrow> None | Some d \<Rightarrow> digits_value (10 * acc + d) cs)"

definition nat_of_text :: "string \<Rightarrow> nat option" where
  "nat_of_text s = (if s = [] then None else digits_value 0 s)"

definition default_file_format :: file_format where
  "default_file_format =
     \<lparr> format_type = ''CSV'', field_delimiter = '','', skip_header = 0,
       empty_field_as_null = True \<rparr>"

definition set_format_option :: "string \<times> optval \<Rightarrow> file_format \<Rightarrow> file_format option" where
  "set_format_option kv f =
     (case kv of (k, v) \<Rightarrow>
        if k = ''TYPE'' then
          (case v of Opt_word t \<Rightarrow> Some (f\<lparr>format_type := t\<rparr>) | _ \<Rightarrow> None)
        else if k = ''FIELD_DELIMITER'' then
          (case v of Opt_lit d \<Rightarrow> Some (f\<lparr>field_delimiter := d\<rparr>) | _ \<Rightarrow> None)
        else if k = ''SKIP_HEADER'' then
          (case v of
             Opt_word n \<Rightarrow> map_option (\<lambda>m. f\<lparr>skip_header := m\<rparr>) (nat_of_text n)
           | _ \<Rightarrow> None)
        else if k = ''EMPTY_FIELD_AS_NULL'' then
          (case v of
             Opt_word b \<Rightarrow>
               if b = ''TRUE'' then Some (f\<lparr>empty_field_as_null := True\<rparr>)
               else if b = ''FALSE'' then Some (f\<lparr>empty_field_as_null := False\<rparr>)
               else None
           | _ \<Rightarrow> None)
        else None)"

fun file_format_of :: "options \<Rightarrow> file_format \<Rightarrow> file_format option" where
  "file_format_of [] f = Some f"
| "file_format_of (kv # kvs) f =
     (case set_format_option kv f of None \<Rightarrow> None | Some f' \<Rightarrow> file_format_of kvs f')"

definition stage_of :: "options \<Rightarrow> stage option" where
  "stage_of opts =
     (if list_all (\<lambda>kv. fst kv = ''URL'' \<or> fst kv = ''FILE_FORMAT'') opts then
        (case map_of opts ''URL'' of
           Some (Opt_lit u) \<Rightarrow>
             (case map_of opts ''FILE_FORMAT'' of
                None \<Rightarrow> Some \<lparr> stage_url = u, stage_file_format = None \<rparr>
              | Some (Opt_format n) \<Rightarrow> Some \<lparr> stage_url = u, stage_file_format = Some n \<rparr>
              | Some _ \<Rightarrow> None)
         | _ \<Rightarrow> None)
      else None)"

fun columns_of :: "(string \<times> string) list \<Rightarrow> (string \<times> coltype) list option" where
  "columns_of [] = Some []"
| "columns_of ((c, t) # cs) =
     (case coltype_of t of
        None \<Rightarrow> None
      | Some ty \<Rightarrow> map_option (Cons (c, ty)) (columns_of cs))"

subsection \<open>Bulk load\<close>

fun split_on :: "char \<Rightarrow> string \<Rightarrow> string list" where
  "split_on d [] = [[]]"
| "split_on d (c # cs) =
     (if c = d then [] # split_on d cs
      else (case split_on d cs of [] \<Rightarrow> [[c]] | x # xs \<Rightarrow> (c # x) # xs))"

text \<open>
  The records of a file under a CSV format: lines after the skipped header
  lines, blank lines dropped, each split at the delimiter; an empty field is
  null when the format says so.
\<close>

definition parse_csv :: "file_format \<Rightarrow> string \<Rightarrow> string option list list option" where
  "parse_csv f content =
     (case field_delimiter f of
        [d] \<Rightarrow>
          (if format_type f = ''CSV'' then
             Some (map (map (\<lambda>x. if x = [] \<and> empty_field_as_null f then None else Some x))
                    (map (split_on d)
                      (filter (\<lambda>l. l \<noteq> [])
                        (drop (skip_header f) (split_on (CHR 0x0A) content)))))
           else None)
      | _ \<Rightarrow> None)"

definition convert_field :: "dialect \<Rightarrow> coltype \<Rightarrow> string option \<Rightarrow> val option" where
  "convert_field D ty x =
     (case x of
        None \<Rightarrow> Some VNull
      | Some s \<Rightarrow>
          (case ty of
             T_string \<Rightarrow> Some (VStr s)
           | T_number \<Rightarrow> map_option VNum (number_of_text D s)))"

fun convert_fields :: "dialect \<Rightarrow> coltype list \<Rightarrow> string option list \<Rightarrow> val list option" where
  "convert_fields D [] [] = Some []"
| "convert_fields D (ty # tys) (x # xs) =
     (case convert_field D ty x of
        None \<Rightarrow> None
      | Some v \<Rightarrow> map_option (Cons v) (convert_fields D tys xs))"
| "convert_fields D _ _ = None"

datatype on_error = Continue | Abort_statement

definition on_error_of :: "options \<Rightarrow> on_error option" where
  "on_error_of opts =
     (case map_of opts ''ON_ERROR'' of
        None \<Rightarrow> Some Abort_statement
      | Some (Opt_word p) \<Rightarrow>
          (if p = ''CONTINUE'' then Some Continue
           else if p = ''ABORT_STATEMENT'' then Some Abort_statement
           else None)
      | Some _ \<Rightarrow> None)"

definition selected_files :: "dialect \<Rightarrow> options \<Rightarrow> (string \<times> string) list \<Rightarrow> (string \<times> string) list option" where
  "selected_files D opts files =
     (case map_of opts ''PATTERN'' of
        None \<Rightarrow> Some files
      | Some (Opt_lit p) \<Rightarrow> Some (filter (\<lambda>file. matches D p (fst file)) files)
      | Some _ \<Rightarrow> None)"

definition format_name_of :: "options \<Rightarrow> stage \<Rightarrow> string option option" where
  "format_name_of opts stg =
     (case map_of opts ''FILE_FORMAT'' of
        None \<Rightarrow> Some (stage_file_format stg)
      | Some (Opt_format n) \<Rightarrow> Some (Some n)
      | Some _ \<Rightarrow> None)"

definition lookup_format :: "world \<Rightarrow> string option \<Rightarrow> error + file_format" where
  "lookup_format w name =
     (case name of
        None \<Rightarrow> Inr default_file_format
      | Some n \<Rightarrow> (case map_of (file_formats w) n of None \<Rightarrow> Inl (Not_found n) | Some f \<Rightarrow> Inr f))"

fun all_some :: "'a option list \<Rightarrow> 'a list option" where
  "all_some [] = Some []"
| "all_some (None # xs) = None"
| "all_some (Some x # xs) = map_option (Cons x) (all_some xs)"

fun somes :: "'a option list \<Rightarrow> 'a list" where
  "somes [] = []"
| "somes (None # xs) = somes xs"
| "somes (Some x # xs) = x # somes xs"

text \<open>
  Modelled from the spec: the bulk load, which is the warehouse's. The rows a
  load appends are the records of the selected files, in file order,
  converted to the table's column types. \<^verbatim>\<open>CONTINUE\<close> keeps the rows that
  convert and drops the others (rows that fail to parse are skipped);
  \<^verbatim>\<open>ABORT_STATEMENT\<close> fails when one does not convert. A load appends: it
  keeps no record of the files it has loaded before.
\<close>

definition load_rows ::
  "dialect \<Rightarrow> on_error \<Rightarrow> file_format \<Rightarrow> coltype list \<Rightarrow> (string \<times> string) list \<Rightarrow> error + val list list" where
  "load_rows D policy f tys files =
     (case all_some (map (\<lambda>file. parse_csv f (snd file)) files) of
        None \<Rightarrow> Inl (Unsupported ''FILE FORMAT'')
      | Some recs \<Rightarrow>
          (let converted = map (convert_fields D tys) (concat recs) in
           case policy of
             Continue \<Rightarrow> Inr (somes converted)
           | Abort_statement \<Rightarrow>
               (case all_some converted of None \<Rightarrow> Inl Load_failed | Some rs \<Rightarrow> Inr rs)))"

definition copy_rows :: "dialect \<Rightarrow> world \<Rightarrow> string \<Rightarrow> string \<Rightarrow> options \<Rightarrow> error + val list list" where
  "copy_rows D w t s opts =
     (if \<not> list_all (\<lambda>kv. fst kv = ''FILE_FORMAT'' \<or> fst kv = ''PATTERN'' \<or> fst kv = ''ON_ERROR'') opts
      then Inl (Unsupported ''COPY option'') else
      case map_of (tables w) t of None \<Rightarrow> Inl (Not_found t) | Some tab \<Rightarrow>
      case map_of (stages w) s of None \<Rightarrow> Inl (Not_found s) | Some stg \<Rightarrow>
      case format_name_of opts stg of None \<Rightarrow> Inl (Unsupported ''FILE_FORMAT'') | Some fname \<Rightarrow>
      case lookup_format w fname of Inl e \<Rightarrow> Inl e | Inr f \<Rightarrow>
      case map_of (storage w) (stage_url stg) of None \<Rightarrow> Inl (Not_found (stage_url stg)) | Some files \<Rightarrow>
      case selected_files D opts files of None \<Rightarrow> Inl (Unsupported ''PATTERN'') | Some sel \<Rightarrow>
      case on_error_of opts of None \<Rightarrow> Inl (Unsupported ''ON_ERROR'') | Some policy \<Rightarrow>
      load_rows D policy f (map snd (table_columns tab)) sel)"

definition append_rows :: "string \<Rightarrow> val list list \<Rightarrow> (string \<times> table) list \<Rightarrow> (string \<times> table) list" where
  "append_rows t new ts =
     map (\<lambda>e. if fst e = t then (fst e, (snd e)\<lparr>table_rows := table_rows (snd e) @ new\<rparr>) else e) ts"

subsection \<open>Running a statement\<close>

text \<open>
  Modelled from the spec: what the warehouse does with each kind of statement.
  A statement that succeeds returns no rows of interest to \<^verbatim>\<open>main\<close>.
\<close>

definition run_stmt :: "dialect \<Rightarrow> stmt \<Rightarrow> (world, row list) action" where
  "run_stmt D st w =
     (case st of
        Create_database ine n \<Rightarrow>
          (case create_name ine n (databases w) of
             Inl e \<Rightarrow> (Inl e, w) | Inr xs \<Rightarrow> (Inr [], w\<lparr>databases := xs\<rparr>))
      | Create_schema ine n \<Rightarrow>
          (case create_name ine n (schemas w) of
             Inl e \<Rightarrow> (Inl e, w) | Inr xs \<Rightarrow> (Inr [], w\<lparr>schemas := xs\<rparr>))
      | Create_file_format ine n opts \<Rightarrow>
          (case file_format_of opts default_file_format of
             None \<Rightarrow> (Inl (Unsupported ''FILE FORMAT option''), w)
           | Some f \<Rightarrow>
               (case create_entry ine n f (file_formats w) of
                  Inl e \<Rightarrow> (Inl e, w) | Inr xs \<Rightarrow> (Inr [], w\<lparr>file_formats := xs\<rparr>)))
      | Create_stage ine n opts \<Rightarrow>
          (case stage_of opts of
             None \<Rightarrow> (Inl (Unsupported ''STAGE option''), w)
           | Some stg \<Rightarrow>
               (case create_entry ine n stg (stages w) of
                  Inl e \<Rightarrow> (Inl e, w) | Inr xs \<Rightarrow> (Inr [], w\<lparr>stages := xs\<rparr>)))
      | Create_table ine n cols \<Rightarrow>
          (case columns_of cols of
             None \<Rightarrow> (Inl (Unsupported ''column type''), w)
           | Some cs \<Rightarrow>
               (case create_entry ine n \<lparr> table_columns = cs, table_rows = [] \<rparr> (tables w) of
                  Inl e \<Rightarrow> (Inl e, w) | Inr xs \<Rightarrow> (Inr [], w\<lparr>tables := xs\<rparr>)))
      | Copy_into t s opts \<Rightarrow>
          (case copy_rows D w t s opts of
             Inl e \<Rightarrow> (Inl e, w)
           | Inr new \<Rightarrow> (Inr [], w\<lparr>tables := append_rows t new (tables w)\<rparr>)))"

subsection \<open>Reading a data frame\<close>

text \<open>
  Modelled from the spec: the cast to \<^verbatim>\<open>DOUBLE\<close>, which is the warehouse's.
  Null stays null, a number becomes its floating-point value, and text that
  is not a number gives null instead of an error (the spec's error taxonomy,
  case d).
\<close>

definition cast_val :: "dialect \<Rightarrow> string \<Rightarrow> val \<Rightarrow> error + val" where
  "cast_val D ty v =
     (if ty = ''DOUBLE'' then
        (case v of
           VNull \<Rightarrow> Inr VNull
         | VNum q \<Rightarrow> Inr (VDouble q)
         | VDouble q \<Rightarrow> Inr (VDouble q)
         | VStr s \<Rightarrow> (case double_of_text D s of None \<Rightarrow> Inr VNull | Some q \<Rightarrow> Inr (VDouble q)))
      else Inl (Unsupported ty))"

text \<open>
  Modelled from the spec: the names of the fields of a row, which are the
  warehouse's. The spec names the fields descriptively and does not fix their
  letter case; the warehouse resolves and reports an unquoted identifier in
  upper case, so \<^verbatim>\<open>Amount\<close> is the field \<^verbatim>\<open>AMOUNT\<close> and \<^verbatim>\<open>Amount_num\<close> the field
  \<^verbatim>\<open>AMOUNT_NUM\<close>. Quoted identifiers, which \<^verbatim>\<open>main\<close> does not use, are not
  modelled.
\<close>

definition upper_char :: "char \<Rightarrow> char" where
  "upper_char c =
     (case index_of c ''abcdefghijklmnopqrstuvwxyz'' of
        None \<Rightarrow> c
      | Some i \<Rightarrow> ''ABCDEFGHIJKLMNOPQRSTUVWXYZ'' ! i)"

definition fold_case :: "string \<Rightarrow> string" where
  "fold_case s = map upper_char s"

text \<open>
  Modelled from the spec: a column expression, evaluated on one row. A column
  is looked up under its upper-case name.
\<close>

fun eval_column :: "dialect \<Rightarrow> row \<Rightarrow> column \<Rightarrow> error + val" where
  "eval_column D r (Col n) =
     (case map_of r (fold_case n) of None \<Rightarrow> Inl (Not_found n) | Some v \<Rightarrow> Inr v)"
| "eval_column D r (Cast c ty) =
     (case eval_column D r c of Inl e \<Rightarrow> Inl e | Inr v \<Rightarrow> cast_val D ty v)"

text \<open>
  Modelled from the spec: \<^verbatim>\<open>with_column\<close>, which is Snowpark's. It replaces a
  column of the same name and adds the new one last, under the upper-case form
  of the name it is given.
\<close>

definition set_field :: "string \<Rightarrow> val \<Rightarrow> row \<Rightarrow> row" where
  "set_field n v r = filter (\<lambda>kv. fst kv \<noteq> fold_case n) r @ [(fold_case n, v)]"

fun all_right :: "(error + 'a) list \<Rightarrow> error + 'a list" where
  "all_right [] = Inr []"
| "all_right (Inl e # xs) = Inl e"
| "all_right (Inr x # xs) = (case all_right xs of Inl e \<Rightarrow> Inl e | Inr ys \<Rightarrow> Inr (x # ys))"

definition with_column :: "dialect \<Rightarrow> string \<Rightarrow> column \<Rightarrow> row \<Rightarrow> error + row" where
  "with_column D n c r =
     (case eval_column D r c of Inl e \<Rightarrow> Inl e | Inr v \<Rightarrow> Inr (set_field n v r))"

text \<open>
  Modelled from the spec: the read of a data frame. A table is read in storage
  order, each row under the table's column names in upper case; \<^verbatim>\<open>limit n\<close>
  keeps the first \<open>n\<close> rows.
\<close>

fun eval_df :: "dialect \<Rightarrow> world \<Rightarrow> dataframe \<Rightarrow> error + row list" where
  "eval_df D w (Sql s) = Inl (Unsupported ''query'')"
| "eval_df D w (Table n) =
     (case map_of (tables w) n of
        None \<Rightarrow> Inl (Not_found n)
      | Some t \<Rightarrow>
          Inr (map (zip (map (\<lambda>c. fold_case (fst c)) (table_columns t))) (table_rows t)))"
| "eval_df D w (With_column df n c) =
     (case eval_df D w df of
        Inl e \<Rightarrow> Inl e
      | Inr rs \<Rightarrow> all_right (map (with_column D n c) rs))"
| "eval_df D w (Limit df n) =
     (case eval_df D w df of Inl e \<Rightarrow> Inl e | Inr rs \<Rightarrow> Inr (take n rs))"

text \<open>
  Modelled from the spec: \<^verbatim>\<open>collect\<close> on the reference warehouse. A statement
  is parsed and run, any other data frame is read without changing the
  warehouse.
\<close>

definition warehouse :: "dialect \<Rightarrow> world session" where
  "warehouse D df w =
     (case df of
        Sql s \<Rightarrow> (case parse_sql s of None \<Rightarrow> (Inl Syntax_error, w) | Some st \<Rightarrow> run_stmt D st w)
      | _ \<Rightarrow> (eval_df D w df, w))"

subsection \<open>A dialect to run examples with\<close>

fun occurs_in :: "string \<Rightarrow> string \<Rightarrow> bool" where
  "occurs_in p [] = (p = [])"
| "occurs_in p (c # cs) = (take (length p) (c # cs) = p \<or> occurs_in p cs)"

text \<open>
  Plain decimals: an optional minus sign, digits, and optionally a point
  followed by digits.
\<close>

definition decimal_of_text :: "string \<Rightarrow> rat option" where
  "decimal_of_text s =
     (let neg = (take 1 s = ''-'');
          body = (if neg then drop 1 s else s);
          ip = takeWhile (\<lambda>c. c \<noteq> CHR ''.'') body;
          fp = drop 1 (dropWhile (\<lambda>c. c \<noteq> CHR ''.'') body);
          pointed = (dropWhile (\<lambda>c. c \<noteq> CHR ''.'') body \<noteq> [])
      in if pointed \<and> fp = [] then None else
         case nat_of_text ip of
           None \<Rightarrow> None
         | Some i \<Rightarrow>
             (case digits_value 0 fp of
                None \<Rightarrow> None
              | Some f \<Rightarrow>
                  (let q = of_nat i + of_nat f / of_nat (10 ^ length fp)
                   in Some (if neg then - q else q))))"

text \<open>
  Patterns of the shape \<^verbatim>\<open>.*text.*\<close> match the names that contain the text;
  any other pattern matches the name equal to it.
\<close>

definition simple_matches :: "string \<Rightarrow> string \<Rightarrow> bool" where
  "simple_matches p name =
     (if 4 \<le> length p \<and> take 2 p = ''.*'' \<and> drop (length p - 2) p = ''.*''
      then occurs_in (take (length p - 4) (drop 2 p)) name
      else p = name)"

definition simple_dialect :: dialect where
  "simple_dialect =
     \<lparr> number_of_text = decimal_of_text, double_of_text = decimal_of_text,
       matches = simple_matches \<rparr>"

definition empty_world :: world where
  "empty_world =
     \<lparr> databases = [], schemas = [], file_formats = [], stages = [], tables = [],
       storage = [] \<rparr>"

section \<open>The process: import once, call \<^verbatim>\<open>main\<close> any number of times\<close>

text \<open>
  A Python process holds its environment and, once the module is imported, the
  module's globals. \<^verbatim>\<open>main\<close> reads the globals; nothing in the module reads
  the environment again or assigns a global after import.
\<close>

record process =
  environ_of :: environ
  module_globals :: globals

definition start_process :: "environ \<Rightarrow> process" where
  "start_process env = \<lparr> environ_of = env, module_globals = import_module env \<rparr>"

datatype env_change = Putenv string string | Unsetenv string

fun change_env :: "env_change \<Rightarrow> process \<Rightarrow> process" where
  "change_env (Putenv k v) p = p\<lparr>environ_of := (environ_of p)(k \<mapsto> v)\<rparr>"
| "change_env (Unsetenv k) p = p\<lparr>environ_of := (environ_of p)(k := None)\<rparr>"

definition call_main :: "process \<Rightarrow> 'w session \<Rightarrow> ('w, row list) action" where
  "call_main p session = main (module_globals p) session"

section \<open>The order of the statements\<close>

text \<open>The seven data frames \<^verbatim>\<open>main\<close> collects, in program order.\<close>

definition main_plan :: "globals \<Rightarrow> dataframe list" where
  "main_plan g =
     [Sql (sql_create_database g), Sql (sql_create_schema g),
      Sql (sql_create_file_format g), Sql (sql_create_stage g),
      Sql (sql_create_table g), Sql (sql_copy_into g),
      Limit (df_transformed g) 10]"

text \<open>
  The spec's linear state machine over a list of steps: each step runs on the
  state the previous one left, a failing step ends the run with its error, and
  the rows of the last step are the result.
\<close>

fun run_all :: "'w session \<Rightarrow> dataframe list \<Rightarrow> ('w, row list) action" where
  "run_all session [] w = (Inr [], w)"
| "run_all session [d] w = session d w"
| "run_all session (d # d' # ds) w =
     (case session d w of
        (Inl e, w') \<Rightarrow> (Inl e, w')
      | (Inr _, w') \<Rightarrow> run_all session (d' # ds) w')"

text \<open>A session that records every data frame it is asked to collect.\<close>

definition logged :: "'w session \<Rightarrow> ('w \<times> dataframe list) session" where
  "logged session d wl =
     (case session d (fst wl) of (r, w') \<Rightarrow> (r, (w', snd wl @ [d])))"

definition issued :: "(error + 'a) \<times> ('w \<times> dataframe list) \<Rightarrow> dataframe list" where
  "issued outcome = snd (snd outcome)"

text \<open>A session whose every request fails, as with a lost connection.\<close>

definition offline :: "'w session" where
  "offline d w = (Inl Rejected, w)"

section \<open>Well-formed configuration values\<close>

text \<open>
  The statements splice the configuration values into the text unquoted and
  unescaped. A name must therefore be a single word of the statement and a
  value placed between quotes must not contain a quote; otherwise the text is a
  different statement from the one \<^verbatim>\<open>main\<close> means.
\<close>

definition word_ok :: "string \<Rightarrow> bool" where
  "word_ok s = (s \<noteq> [] \<and> list_all word_char s)"

definition literal_ok :: "string \<Rightarrow> bool" where
  "literal_ok s = list_all (\<lambda>c. c \<noteq> quote) s"

definition wf_globals :: "globals \<Rightarrow> bool" where
  "wf_globals g =
     (word_ok (DB g) \<and> word_ok (SCHEMA g) \<and> word_ok (FQ_FILE_FORMAT g) \<and>
      word_ok (FQ_STAGE g) \<and> word_ok (FQ_TABLE g) \<and>
      literal_ok (S3_URL g) \<and> literal_ok (COPY_PATTERN g))"

section \<open>The spec's provisioning operations\<close>

text \<open>
  The \<open>ensure\<close> operations of the spec, on the lists of the reference
  warehouse: an object that exists is left as it is, one that does not is
  added with the given definition.
\<close>

definition ensure_name :: "string \<Rightarrow> string list \<Rightarrow> string list" where
  "ensure_name n xs = (if n \<in> set xs then xs else xs @ [n])"

definition ensure_entry :: "string \<Rightarrow> 'a \<Rightarrow> (string \<times> 'a) list \<Rightarrow> (string \<times> 'a) list" where
  "ensure_entry n v xs = (if n \<in> set (map fst xs) then xs else xs @ [(n, v)])"

text \<open>Comma-delimited, one header row skipped, empty fields become null.\<close>

definition csv_profile :: file_format where
  "csv_profile =
     \<lparr> format_type = ''CSV'', field_delimiter = '','', skip_header = 1,
       empty_field_as_null = True \<rparr>"

definition orders_columns :: "(string \<times> coltype) list" where
  "orders_columns =
     [(''ID'', T_string), (''Amount'', T_number), (''Profit'', T_number),
      (''Quantity'', T_number), (''Category'', T_string), (''Sub_Category'', T_string)]"

definition provisioned :: "globals \<Rightarrow> world \<Rightarrow> world" where
  "provisioned g w =
     w\<lparr> databases := ensure_name (DB g) (databases w),
        schemas := ensure_name (DB g @ ''.'' @ SCHEMA g) (schemas w),
        file_formats := ensure_entry (FQ_FILE_FORMAT g) csv_profile (file_formats w),
        stages := ensure_entry (FQ_STAGE g)
          \<lparr> stage_url = S3_URL g, stage_file_format = Some (FQ_FILE_FORMAT g) \<rparr> (stages w),
        tables := ensure_entry (FQ_TABLE g)
          \<lparr> table_columns = orders_columns, table_rows = [] \<rparr> (tables w) \<rparr>"

text \<open>
  The options of the bulk-load statement of \<^verbatim>\<open>main\<close>, and the world a
  successful load leaves.
\<close>

definition copy_options :: "globals \<Rightarrow> options" where
  "copy_options g =
     [(''FILE_FORMAT'', Opt_format (FQ_FILE_FORMAT g)), (''PATTERN'', Opt_lit (COPY_PATTERN g)),
      (''ON_ERROR'', Opt_word ''CONTINUE'')]"

definition loaded :: "globals \<Rightarrow> val list list \<Rightarrow> world \<Rightarrow> world" where
  "loaded g new w = w\<lparr>tables := append_rows (FQ_TABLE g) new (tables w)\<rparr>"

subsection \<open>Typed rows\<close>

fun has_type :: "coltype \<Rightarrow> val \<Rightarrow> bool" where
  "has_type ty VNull = True"
| "has_type T_string (VStr s) = True"
| "has_type T_number (VNum q) = True"
| "has_type ty v = False"

definition conforms :: "coltype list \<Rightarrow> val list \<Rightarrow> bool" where
  "conforms tys vs = list_all2 has_type tys vs"

text \<open>
  The target table is absent, or has the columns \<^verbatim>\<open>main\<close> declares and rows
  of those types.
\<close>

definition orders_table_ok :: "globals \<Rightarrow> world \<Rightarrow> bool" where
  "orders_table_ok g w =
     (case map_of (tables w) (FQ_TABLE g) of
        None \<Rightarrow> True
      | Some tab \<Rightarrow>
          table_columns tab = orders_columns \<and>
          list_all (conforms (map snd orders_columns)) (table_rows tab))"

subsection \<open>The sample of a stored row\<close>

text \<open>
  What the read of \<^verbatim>\<open>main\<close> makes of a stored row of the target table: the six
  columns under their upper-case names, then \<^verbatim>\<open>AMOUNT_NUM\<close> and
  \<^verbatim>\<open>PROFIT_NUM\<close>.
\<close>

definition double_of :: "val \<Rightarrow> val" where
  "double_of v = (case v of VNum q \<Rightarrow> VDouble q | _ \<Rightarrow> VNull)"

definition sample_row :: "val list \<Rightarrow> row" where
  "sample_row vs =
     zip [''ID'', ''AMOUNT'', ''PROFIT'', ''QUANTITY'', ''CATEGORY'', ''SUB_CATEGORY''] vs @
     [(''AMOUNT_NUM'', double_of (vs ! 1)), (''PROFIT_NUM'', double_of (vs ! 2))]"

subsection \<open>Example worlds\<close>

text \<open>
  An otherwise empty warehouse whose bucket at the default URL holds one file
  \<^verbatim>\<open>Orders.csv\<close> with the given text, and one that also holds a file whose name
  does not match the default pattern.
\<close>

definition bucket_with :: "string \<Rightarrow> world" where
  "bucket_with content =
     empty_world\<lparr>storage := [(''s3://bucketsnowflakes3/'', [(''Orders.csv'', content)])]\<rparr>"


text \<open>A warehouse whose target table already holds twelve rows; the bucket is empty.\<close>

definition twelve_rows :: world where
  "twelve_rows =
     empty_world\<lparr>
       tables := [(''DATA_PIPELINE_DB.CSV_FILES.ORDERS'',
         \<lparr> table_columns = orders_columns,
           table_rows = replicate 12
             [VStr ''B-1'', VNum 5, VNum 2, VNum 1, VStr ''Furniture'', VStr ''Chairs''] \<rparr>)],
       storage := [(''s3://bucketsnowflakes3/'', [])]\<rparr>"


lemma logged_apply [simp]:
  "logged session d (w, tr) = (case session d w of (r, w') \<Rightarrow> (r, (w', tr @ [d])))"
  by (simp add: logged_def)

lemma main_run_all: "main g session w = run_all session (main_plan g) w"
  by (simp add: main_def main_plan_def bind_def exec_def split: prod.splits sum.splits)

lemma run_all_logged_prefix:
  "ds \<noteq> [] \<Longrightarrow>
   \<exists>k. 1 \<le> k \<and> k \<le> length ds \<and> issued (run_all (logged session) ds (w, tr)) = tr @ take k ds"
proof (induction ds arbitrary: w tr)
  case Nil
  then show ?case by simp
next
  case (Cons d ds)
  show ?case
  proof (cases ds)
    case Nil
    then have "issued (run_all (logged session) (d # ds) (w, tr)) = tr @ take 1 (d # ds)"
      by (simp add: issued_def split: prod.splits)
    then show ?thesis by (intro exI [of _ 1]) simp
  next
    case (Cons d' ds')
    obtain r w' where step: "session d w = (r, w')" by (cases "session d w")
    show ?thesis
    proof (cases r)
      case (Inl e)
      then have "issued (run_all (logged session) (d # ds) (w, tr)) = tr @ take 1 (d # ds)"
        using step Cons by (simp add: issued_def)
      then show ?thesis by (intro exI [of _ 1]) simp
    next
      case (Inr rs)
      from Cons.IH [of w' "tr @ [d]"] Cons obtain k where
        k: "1 \<le> k" "k \<le> length ds"
           "issued (run_all (logged session) ds (w', tr @ [d])) = (tr @ [d]) @ take k ds"
        by auto
      have "issued (run_all (logged session) (d # ds) (w, tr)) = tr @ take (Suc k) (d # ds)"
        using step Inr Cons k(3) by (simp add: issued_def)
      with k(2) show ?thesis by (intro exI [of _ "Suc k"]) simp
    qed
  qed
qed

lemma run_all_logged_complete:
  "ds \<noteq> [] \<Longrightarrow> fst (run_all (logged session) ds (w, tr)) = Inr rs \<Longrightarrow>
   issued (run_all (logged session) ds (w, tr)) = tr @ ds"
proof (induction ds arbitrary: w tr)
  case Nil
  then show ?case by simp
next
  case (Cons d ds)
  show ?case
  proof (cases ds)
    case Nil
    then show ?thesis by (simp add: issued_def split: prod.splits)
  next
    case (Cons d' ds')
    obtain r w' where step: "session d w = (r, w')" by (cases "session d w")
    show ?thesis
    proof (cases r)
      case (Inl e)
      with step Cons Cons.prems(2) show ?thesis by simp
    next
      case (Inr rs')
      have "fst (run_all (logged session) ds (w', tr @ [d])) = Inr rs"
        using Cons.prems(2) step Inr Cons by simp
      with Cons.IH [of w' "tr @ [d]"] Cons
      have "issued (run_all (logged session) ds (w', tr @ [d])) = (tr @ [d]) @ ds" by simp
      then show ?thesis using step Inr Cons by (simp add: issued_def)
    qed
  qed
qed

lemma run_all_logged_result:
  "fst (run_all (logged session) ds (w, tr)) = fst (run_all session ds w)"
proof (induction session ds w arbitrary: tr rule: run_all.induct)
  case (1 session w)
  then show ?case by simp
next
  case (2 session d w)
  then show ?case by (simp split: prod.splits)
next
  case (3 session d d' ds w)
  then show ?case by (simp split: prod.splits sum.splits)
qed

lemma main_plan_length: "length (main_plan g) = 7"
  by (simp add: main_plan_def)

lemma main_plan_distinct: "distinct (main_plan g)"
  by (simp add: main_plan_def sql_create_database_def sql_create_schema_def
      sql_create_file_format_def sql_create_stage_def sql_create_table_def sql_copy_into_def)

lemma change_env_globals: "module_globals (fold change_env cs p) = module_globals p"
proof (induction cs arbitrary: p)
  case Nil
  then show ?case by simp
next
  case (Cons c cs)
  have "module_globals (change_env c p) = module_globals p" by (cases c) simp_all
  with Cons.IH [of "change_env c p"] show ?case by simp
qed

lemma main_issued_prefix:
  "\<exists>k. 1 \<le> k \<and> k \<le> 7 \<and> issued (main g (logged session) (w, tr)) = tr @ take k (main_plan g)"
proof -
  have "main_plan g \<noteq> []" by (simp add: main_plan_def)
  from run_all_logged_prefix [OF this, of session w tr] show ?thesis
    by (simp add: main_run_all main_plan_length)
qed

lemma main_issued_complete:
  assumes "fst (main g session w) = Inr rs"
  shows "issued (main g (logged session) (w, tr)) = tr @ main_plan g"
proof -
  have ne: "main_plan g \<noteq> []" by (simp add: main_plan_def)
  have "fst (run_all (logged session) (main_plan g) (w, tr)) = Inr rs"
    using assms by (simp add: run_all_logged_result main_run_all)
  from run_all_logged_complete [OF ne this] show ?thesis by (simp add: main_run_all)
qed

section \<open>What the reference warehouse makes of the statements of \<^verbatim>\<open>main\<close>\<close>

lemma lexer_word:
  "list_all word_char s \<Longrightarrow> lexer Code acc (s @ rest) = lexer Code (acc @ s) rest"
  by (induction s arbitrary: acc) (auto simp: word_char_def)

lemma lexer_literal:
  "list_all (\<lambda>c. c \<noteq> quote) s \<Longrightarrow> lexer Quoted acc (s @ rest) = lexer Quoted (acc @ s) rest"
  by (induction s arbitrary: acc) auto

lemma lexer_word_end: "word_ok s \<Longrightarrow> lexer Code [] s = [Word s]"
  using lexer_word [of s "[]" "[]"] by (simp add: word_ok_def flush_def)

lemma lexer_word_then: "word_ok s \<Longrightarrow> lexer Code [] (s @ c # rest) = lexer Code s (c # rest)"
  using lexer_word [of s "[]" "c # rest"] by (simp add: word_ok_def)

lemma lexer_literal_then:
  "literal_ok s \<Longrightarrow> lexer Quoted [] (s @ c # rest) = lexer Quoted s (c # rest)"
  using lexer_literal [of s "[]" "c # rest"] by (simp add: literal_ok_def)

lemma word_ok_nonempty: "word_ok s \<Longrightarrow> s \<noteq> []"
  by (simp add: word_ok_def)

lemma word_ok_qualified: "word_ok a \<Longrightarrow> word_ok b \<Longrightarrow> word_ok (a @ ''.'' @ b)"
  by (simp add: word_ok_def word_char_def is_space_def is_punct_def quote_def)

lemmas lex_eval = tokens_def is_space_def is_punct_def quote_def flush_def
  lexer_word_end lexer_word_then lexer_literal_then word_ok_nonempty

lemmas parse_eval = parse_sql_def parse_tokens_def parse_create_def parse_target_def parse_copy_def

lemma parse_create_database:
  "word_ok (DB g) \<Longrightarrow> parse_sql (sql_create_database g) = Some (Create_database True (DB g))"
  by (simp add: sql_create_database_def parse_eval lex_eval)

lemma parse_create_schema:
  assumes "word_ok (DB g)" "word_ok (SCHEMA g)"
  shows "parse_sql (sql_create_schema g) = Some (Create_schema True (DB g @ ''.'' @ SCHEMA g))"
proof -
  have "word_ok (DB g @ ''.'' @ SCHEMA g)" using assms by (rule word_ok_qualified)
  then have "tokens (''CREATE SCHEMA IF NOT EXISTS '' @ (DB g @ ''.'' @ SCHEMA g)) =
      [Word ''CREATE'', Word ''SCHEMA'', Word ''IF'', Word ''NOT'', Word ''EXISTS'',
       Word (DB g @ ''.'' @ SCHEMA g)]"
    by (simp add: tokens_def is_space_def is_punct_def quote_def flush_def lexer_word_end del: append_assoc)
  then show ?thesis
    by (simp add: sql_create_schema_def parse_eval)
qed

lemma parse_create_file_format:
  "word_ok (FQ_FILE_FORMAT g) \<Longrightarrow>
   parse_sql (sql_create_file_format g) =
     Some (Create_file_format True (FQ_FILE_FORMAT g)
       [(''TYPE'', Opt_word ''CSV''), (''FIELD_DELIMITER'', Opt_lit '',''),
        (''SKIP_HEADER'', Opt_word ''1''), (''EMPTY_FIELD_AS_NULL'', Opt_word ''TRUE'')])"
  by (simp add: sql_create_file_format_def parse_eval lex_eval)

lemma parse_create_stage:
  "word_ok (FQ_STAGE g) \<Longrightarrow> word_ok (FQ_FILE_FORMAT g) \<Longrightarrow> literal_ok (S3_URL g) \<Longrightarrow>
   parse_sql (sql_create_stage g) =
     Some (Create_stage True (FQ_STAGE g)
       [(''URL'', Opt_lit (S3_URL g)), (''FILE_FORMAT'', Opt_format (FQ_FILE_FORMAT g))])"
  by (simp add: sql_create_stage_def parse_eval lex_eval)

lemma parse_create_table:
  "word_ok (FQ_TABLE g) \<Longrightarrow>
   parse_sql (sql_create_table g) =
     Some (Create_table True (FQ_TABLE g)
       [(''ID'', ''STRING''), (''Amount'', ''NUMBER''), (''Profit'', ''NUMBER''),
        (''Quantity'', ''NUMBER''), (''Category'', ''STRING''), (''Sub_Category'', ''STRING'')])"
  by (simp add: sql_create_table_def parse_eval lex_eval)

lemma parse_copy_into:
  "word_ok (FQ_TABLE g) \<Longrightarrow> word_ok (FQ_STAGE g) \<Longrightarrow> word_ok (FQ_FILE_FORMAT g) \<Longrightarrow>
   literal_ok (COPY_PATTERN g) \<Longrightarrow>
   parse_sql (sql_copy_into g) =
     Some (Copy_into (FQ_TABLE g) (FQ_STAGE g)
       [(''FILE_FORMAT'', Opt_format (FQ_FILE_FORMAT g)), (''PATTERN'', Opt_lit (COPY_PATTERN g)),
        (''ON_ERROR'', Opt_word ''CONTINUE'')])"
  by (simp add: sql_copy_into_def parse_eval lex_eval)


lemma wf_globalsD:
  assumes "wf_globals g"
  shows "word_ok (DB g)" "word_ok (SCHEMA g)" "word_ok (FQ_FILE_FORMAT g)" "word_ok (FQ_STAGE g)"
    "word_ok (FQ_TABLE g)" "literal_ok (S3_URL g)" "literal_ok (COPY_PATTERN g)"
  using assms by (simp_all add: wf_globals_def)

lemma run_create_database:
  "wf_globals g \<Longrightarrow>
   warehouse D (Sql (sql_create_database g)) w =
     (Inr [], w\<lparr>databases := ensure_name (DB g) (databases w)\<rparr>)"
  by (simp add: warehouse_def parse_create_database wf_globalsD run_stmt_def create_name_def
      ensure_name_def)

lemma run_create_schema:
  "wf_globals g \<Longrightarrow>
   warehouse D (Sql (sql_create_schema g)) w =
     (Inr [], w\<lparr>schemas := ensure_name (DB g @ ''.'' @ SCHEMA g) (schemas w)\<rparr>)"
  by (simp add: warehouse_def parse_create_schema wf_globalsD run_stmt_def create_name_def
      ensure_name_def)

lemma csv_profile_of_options:
  "file_format_of [(''TYPE'', Opt_word ''CSV''), (''FIELD_DELIMITER'', Opt_lit '',''),
        (''SKIP_HEADER'', Opt_word ''1''), (''EMPTY_FIELD_AS_NULL'', Opt_word ''TRUE'')]
      default_file_format = Some csv_profile"
  by (simp add: set_format_option_def default_file_format_def csv_profile_def nat_of_text_def
      digit_of_def)

lemma run_create_file_format:
  "wf_globals g \<Longrightarrow>
   warehouse D (Sql (sql_create_file_format g)) w =
     (Inr [], w\<lparr>file_formats := ensure_entry (FQ_FILE_FORMAT g) csv_profile (file_formats w)\<rparr>)"
  by (simp add: warehouse_def parse_create_file_format wf_globalsD run_stmt_def
      csv_profile_of_options create_entry_def ensure_entry_def del: file_format_of.simps)

lemma run_create_stage:
  "wf_globals g \<Longrightarrow>
   warehouse D (Sql (sql_create_stage g)) w =
     (Inr [], w\<lparr>stages := ensure_entry (FQ_STAGE g)
        \<lparr> stage_url = S3_URL g, stage_file_format = Some (FQ_FILE_FORMAT g) \<rparr> (stages w)\<rparr>)"
  by (simp add: warehouse_def parse_create_stage wf_globalsD run_stmt_def stage_of_def
      create_entry_def ensure_entry_def)

lemma orders_columns_of:
  "columns_of [(''ID'', ''STRING''), (''Amount'', ''NUMBER''), (''Profit'', ''NUMBER''),
        (''Quantity'', ''NUMBER''), (''Category'', ''STRING''), (''Sub_Category'', ''STRING'')] =
     Some orders_columns"
  by (simp add: coltype_of_def orders_columns_def)

lemma run_create_table:
  "wf_globals g \<Longrightarrow>
   warehouse D (Sql (sql_create_table g)) w =
     (Inr [], w\<lparr>tables := ensure_entry (FQ_TABLE g)
        \<lparr> table_columns = orders_columns, table_rows = [] \<rparr> (tables w)\<rparr>)"
  by (simp add: warehouse_def parse_create_table wf_globalsD run_stmt_def orders_columns_of
      create_entry_def ensure_entry_def del: columns_of.simps)

lemma run_copy_into:
  "wf_globals g \<Longrightarrow>
   warehouse D (Sql (sql_copy_into g)) w =
     (case copy_rows D w (FQ_TABLE g) (FQ_STAGE g) (copy_options g) of
        Inl e \<Rightarrow> (Inl e, w)
      | Inr new \<Rightarrow> (Inr [], loaded g new w))"
  by (simp add: warehouse_def parse_copy_into wf_globalsD run_stmt_def copy_options_def loaded_def
      split: sum.splits)

lemma run_read: "warehouse D (Limit df n) w = (eval_df D w (Limit df n), w)"
  by (simp add: warehouse_def)


lemma main_on_warehouse:
  "wf_globals g \<Longrightarrow>
   main g (warehouse D) w =
     (case copy_rows D (provisioned g w) (FQ_TABLE g) (FQ_STAGE g) (copy_options g) of
        Inl e \<Rightarrow> (Inl e, provisioned g w)
      | Inr new \<Rightarrow>
          (eval_df D (loaded g new (provisioned g w)) (Limit (df_transformed g) 10),
           loaded g new (provisioned g w)))"
  by (simp add: main_run_all main_plan_def run_create_database run_create_schema
      run_create_file_format run_create_stage run_create_table run_copy_into run_read
      provisioned_def split: sum.splits)




subsection \<open>Loading keeps the target table typed\<close>

lemma convert_fields_conforms:
  "convert_fields D tys xs = Some vs \<Longrightarrow> conforms tys vs"
proof (induction D tys xs arbitrary: vs rule: convert_fields.induct)
  case (1 D)
  then show ?case by (simp add: conforms_def)
next
  case (2 D ty tys x xs)
  from "2.prems" obtain v vs' where
    v: "convert_field D ty x = Some v" and vs': "convert_fields D tys xs = Some vs'"
    and vs: "vs = v # vs'"
    by (auto split: option.splits)
  have "has_type ty v"
    using v by (cases ty; cases x) (auto simp: convert_field_def)
  moreover have "conforms tys vs'" using "2.IH" v vs' by simp
  ultimately show ?case using vs by (simp add: conforms_def)
qed simp_all

lemma set_somes: "set (somes xs) = {x. Some x \<in> set xs}"
  by (induction xs rule: somes.induct) auto

lemma all_some_set: "all_some xs = Some ys \<Longrightarrow> set ys = {x. Some x \<in> set xs}"
  by (induction xs arbitrary: ys rule: all_some.induct) auto

lemma load_rows_conform:
  assumes "load_rows D policy f tys files = Inr new"
  shows "list_all (conforms tys) new"
proof -
  have "\<exists>x. convert_fields D tys x = Some vs" if "vs \<in> set new" for vs
  proof (cases policy)
    case Continue
    with assms obtain xs where "new = somes (map (convert_fields D tys) xs)"
      by (auto simp: load_rows_def Let_def split: option.splits)
    with that have "Some vs \<in> set (map (convert_fields D tys) xs)" by (simp add: set_somes)
    then show ?thesis by (metis (no_types) imageE list.set_map)
  next
    case Abort_statement
    with assms obtain xs where "all_some (map (convert_fields D tys) xs) = Some new"
      by (auto simp: load_rows_def Let_def split: option.splits)
    from all_some_set [OF this] that show ?thesis by auto
  qed
  then show ?thesis
    by (auto simp: list_all_iff intro: convert_fields_conforms)
qed

lemma copy_rows_conform:
  assumes "copy_rows D w t s opts = Inr new" and "map_of (tables w) t = Some tab"
  shows "list_all (conforms (map snd (table_columns tab))) new"
  using assms
  by (auto simp: copy_rows_def split: if_splits option.splits sum.splits
      intro: load_rows_conform)

lemma map_of_append_rows:
  "map_of (append_rows t new ts) t' =
     (if t' = t then map_option (\<lambda>tab. tab\<lparr>table_rows := table_rows tab @ new\<rparr>) (map_of ts t)
      else map_of ts t')"
  by (induction ts) (auto simp: append_rows_def)

lemma map_of_ensure_entry:
  "map_of (ensure_entry n v xs) n = (case map_of xs n of None \<Rightarrow> Some v | Some x \<Rightarrow> Some x)"
proof (cases "map_of xs n")
  case None
  then have "n \<notin> fst ` set xs" by (simp add: map_of_eq_None_iff)
  with None show ?thesis by (simp add: ensure_entry_def map_add_def)
next
  case (Some x)
  then have "n \<in> fst ` set xs" by (metis map_of_eq_None_iff option.distinct(1))
  with Some show ?thesis by (simp add: ensure_entry_def)
qed

lemma tables_provisioned:
  "map_of (tables (provisioned g w)) (FQ_TABLE g) =
     (case map_of (tables w) (FQ_TABLE g) of
        None \<Rightarrow> Some \<lparr> table_columns = orders_columns, table_rows = [] \<rparr>
      | Some tab \<Rightarrow> Some tab)"
  by (simp add: provisioned_def map_of_ensure_entry)

lemma orders_table_ok_provisioned:
  "orders_table_ok g w \<Longrightarrow> orders_table_ok g (provisioned g w)"
  by (simp add: orders_table_ok_def tables_provisioned split: option.splits)

lemma orders_table_ok_loaded:
  assumes ok: "orders_table_ok g w" and rows: "copy_rows D w (FQ_TABLE g) s opts = Inr new"
  shows "orders_table_ok g (loaded g new w)"
proof (cases "map_of (tables w) (FQ_TABLE g)")
  case None
  then show ?thesis by (simp add: orders_table_ok_def loaded_def map_of_append_rows)
next
  case (Some tab)
  from copy_rows_conform [OF rows Some] ok Some
  show ?thesis by (simp add: orders_table_ok_def loaded_def map_of_append_rows)
qed

lemma provisioned_table_exists:
  "orders_table_ok g w \<Longrightarrow>
   \<exists>tab. map_of (tables (provisioned g w)) (FQ_TABLE g) = Some tab \<and>
         table_columns tab = orders_columns \<and>
         list_all (conforms (map snd orders_columns)) (table_rows tab)"
  by (auto simp: orders_table_ok_def tables_provisioned split: option.splits)

subsection \<open>Reading the target table\<close>

lemma main_returns_read:
  assumes "main g session w = (Inr rs, w')"
  shows "\<exists>w6. session (Limit (df_transformed g) 10) w6 = (Inr rs, w')"
  using assms
  by (auto simp: main_def bind_def exec_def split: prod.splits sum.splits)

lemma all_right_length: "all_right xs = Inr ys \<Longrightarrow> length ys = length xs"
  by (induction xs arbitrary: ys rule: all_right.induct) (auto split: sum.splits)




lemma read_length:
  assumes "eval_df D w (Limit (df_transformed g) 10) = Inr rs"
  shows "\<exists>tab. map_of (tables w) (FQ_TABLE g) = Some tab \<and>
               length rs = min 10 (length (table_rows tab))"
proof -
  from assms obtain tab xs ys where
    tab: "map_of (tables w) (FQ_TABLE g) = Some tab"
    and xs: "all_right (map (with_column D ''Amount_num'' (Cast (Col ''Amount'') ''DOUBLE''))
               (map (zip (map (\<lambda>c. fold_case (fst c)) (table_columns tab))) (table_rows tab))) = Inr xs"
    and ys: "all_right (map (with_column D ''Profit_num'' (Cast (Col ''Profit'') ''DOUBLE'')) xs) = Inr ys"
    and rs: "rs = take 10 ys"
    by (auto simp: df_transformed_def split: option.splits sum.splits)
  from all_right_length [OF xs] all_right_length [OF ys] rs
  have "length rs = min 10 (length (table_rows tab))" by simp
  with tab show ?thesis by blast
qed





subsection \<open>The objects after a run\<close>







lemma main_world:
  assumes "wf_globals g"
  shows "snd (main g (warehouse D) w) = provisioned g w \<or>
         (\<exists>new. snd (main g (warehouse D) w) = loaded g new (provisioned g w))"
  using assms by (auto simp: main_on_warehouse split: sum.splits)






subsection \<open>The sample \<^verbatim>\<open>main\<close> returns from a typed target table\<close>

lemma wf_globals_import:
  assumes "word_ok (getenv env ''SF_DB'' ''DATA_PIPELINE_DB'')"
    and "word_ok (getenv env ''SF_SCHEMA'' ''CSV_FILES'')"
    and "word_ok (getenv env ''SF_FILE_FORMAT'' ''csv_format'')"
    and "word_ok (getenv env ''SF_STAGE'' ''aws_stage'')"
    and "word_ok (getenv env ''SF_TABLE'' ''ORDERS'')"
    and "literal_ok (getenv env ''S3_URL'' ''s3://bucketsnowflakes3/'')"
    and "literal_ok (getenv env ''COPY_PATTERN'' ''.*Order.*'')"
  shows "wf_globals (import_module env)"
proof -
  have dotted: "word_ok (a @ CHR ''.'' # b)" if "word_ok a" "word_ok b" for a b
    using word_ok_qualified [OF that] by simp
  from assms show ?thesis
    by (simp add: wf_globals_def import_module_def Let_def dotted)
qed

lemma wf_default: "wf_globals (import_module Map.empty)"
  by code_simp







lemma main_keeps_table_typed:
  assumes wf: "wf_globals g" and ok: "orders_table_ok g w"
  shows "\<exists>tab. map_of (tables (snd (main g (warehouse D) w))) (FQ_TABLE g) = Some tab \<and>
           table_columns tab = orders_columns \<and>
           list_all (conforms (map snd orders_columns)) (table_rows tab)"
proof (cases "copy_rows D (provisioned g w) (FQ_TABLE g) (FQ_STAGE g) (copy_options g)")
  case (Inl e)
  then have "snd (main g (warehouse D) w) = provisioned g w"
    by (simp add: main_on_warehouse [OF wf])
  with provisioned_table_exists [OF ok] show ?thesis by simp
next
  case (Inr new)
  then have w': "snd (main g (warehouse D) w) = loaded g new (provisioned g w)"
    by (simp add: main_on_warehouse [OF wf])
  have ok': "orders_table_ok g (loaded g new (provisioned g w))"
    using orders_table_ok_provisioned [OF ok] Inr by (rule orders_table_ok_loaded)
  obtain tab0 where "map_of (tables (provisioned g w)) (FQ_TABLE g) = Some tab0"
    using provisioned_table_exists [OF ok] by blast
  then have "map_of (tables (loaded g new (provisioned g w))) (FQ_TABLE g) \<noteq> None"
    by (simp add: loaded_def map_of_append_rows)
  with ok' show ?thesis
    unfolding w' by (auto simp: orders_table_ok_def split: option.splits)
qed

subsection \<open>Where the returned rows come from\<close>





section \<open>Claims about the configuration\<close>

text \<open>
  C9. Each of the seven configuration values is the hardcoded default when its
  environment variable is unset (and the variable's value when it is set); the
  three qualified names are always \<open>database.schema.object\<close> built from those
  values; with every variable unset they are
  \<^verbatim>\<open>DATA_PIPELINE_DB.CSV_FILES.csv_format\<close>, \<^verbatim>\<open>DATA_PIPELINE_DB.CSV_FILES.aws_stage\<close>
  and \<^verbatim>\<open>DATA_PIPELINE_DB.CSV_FILES.ORDERS\<close>.
\<close>

theorem defaults_and_qualified_names:
  fixes env :: environ
  defines "g \<equiv> import_module env"
  shows
    "DB g = (case env ''SF_DB'' of None \<Rightarrow> ''DATA_PIPELINE_DB'' | Some v \<Rightarrow> v) \<and>
     SCHEMA g = (case env ''SF_SCHEMA'' of None \<Rightarrow> ''CSV_FILES'' | Some v \<Rightarrow> v) \<and>
     FILE_FORMAT_NAME g = (case env ''SF_FILE_FORMAT'' of None \<Rightarrow> ''csv_format'' | Some v \<Rightarrow> v) \<and>
     STAGE_NAME g = (case env ''SF_STAGE'' of None \<Rightarrow> ''aws_stage'' | Some v \<Rightarrow> v) \<and>
     TABLE_NAME g = (case env ''SF_TABLE'' of None \<Rightarrow> ''ORDERS'' | Some v \<Rightarrow> v) \<and>
     S3_URL g = (case env ''S3_URL'' of None \<Rightarrow> ''s3://bucketsnowflakes3/'' | Some v \<Rightarrow> v) \<and>
     COPY_PATTERN g = (case env ''COPY_PATTERN'' of None \<Rightarrow> ''.*Order.*'' | Some v \<Rightarrow> v) \<and>
     FQ_FILE_FORMAT g = DB g @ ''.'' @ SCHEMA g @ ''.'' @ FILE_FORMAT_NAME g \<and>
     FQ_STAGE g = DB g @ ''.'' @ SCHEMA g @ ''.'' @ STAGE_NAME g \<and>
     FQ_TABLE g = DB g @ ''.'' @ SCHEMA g @ ''.'' @ TABLE_NAME g \<and>
     (env ''SF_DB'' = None \<and> env ''SF_SCHEMA'' = None \<and> env ''SF_FILE_FORMAT'' = None \<and>
      env ''SF_STAGE'' = None \<and> env ''SF_TABLE'' = None \<longrightarrow>
        FQ_FILE_FORMAT g = ''DATA_PIPELINE_DB.CSV_FILES.csv_format'' \<and>
        FQ_STAGE g = ''DATA_PIPELINE_DB.CSV_FILES.aws_stage'' \<and>
        FQ_TABLE g = ''DATA_PIPELINE_DB.CSV_FILES.ORDERS'')"
  unfolding g_def by (simp add: import_module_def getenv_def Let_def)

theorem defaults_and_qualified_names_witness:
  "DB (import_module Map.empty) = ''DATA_PIPELINE_DB'' \<and>
   SCHEMA (import_module Map.empty) = ''CSV_FILES'' \<and>
   FILE_FORMAT_NAME (import_module Map.empty) = ''csv_format'' \<and>
   STAGE_NAME (import_module Map.empty) = ''aws_stage'' \<and>
   TABLE_NAME (import_module Map.empty) = ''ORDERS'' \<and>
   S3_URL (import_module Map.empty) = ''s3://bucketsnowflakes3/'' \<and>
   COPY_PATTERN (import_module Map.empty) = ''.*Order.*'' \<and>
   FQ_FILE_FORMAT (import_module Map.empty) = ''DATA_PIPELINE_DB.CSV_FILES.csv_format'' \<and>
   FQ_STAGE (import_module Map.empty) = ''DATA_PIPELINE_DB.CSV_FILES.aws_stage'' \<and>
   FQ_TABLE (import_module Map.empty) = ''DATA_PIPELINE_DB.CSV_FILES.ORDERS'' \<and>
   FQ_TABLE (import_module [''SF_TABLE'' \<mapsto> ''SALES'']) = ''DATA_PIPELINE_DB.CSV_FILES.SALES''"
  using defaults_and_qualified_names [of Map.empty]
    defaults_and_qualified_names [of "[''SF_TABLE'' \<mapsto> ''SALES'']"]
  by simp

text \<open>
  C10. The configuration is read from the environment once, when the module
  is imported. Whatever changes the environment undergoes afterwards, the
  module globals stay what the import made them, so two invocations of
  \<^verbatim>\<open>main\<close> in one process issue statements from one and the same list: each
  issues an initial part of it, and two invocations that both return issue
  identical statements.
\<close>

theorem statements_fixed_at_import:
  fixes env :: environ and changes :: "env_change list"
  defines "p \<equiv> start_process env"
  defines "p' \<equiv> fold change_env changes (start_process env)"
  shows
    "module_globals p' = import_module env \<and>
     main_plan (module_globals p') = main_plan (module_globals p) \<and>
     (\<exists>k k'. issued (call_main p (logged session) (w, [])) = take k (main_plan (import_module env)) \<and>
             issued (call_main p' (logged session') (w', [])) = take k' (main_plan (import_module env))) \<and>
     (\<forall>rs rs'. fst (call_main p session w) = Inr rs \<and> fst (call_main p' session' w') = Inr rs' \<longrightarrow>
        issued (call_main p (logged session) (w, [])) =
        issued (call_main p' (logged session') (w', [])))"
proof -
  have same: "module_globals p' = import_module env"
    unfolding p'_def by (simp add: change_env_globals start_process_def)
  have first: "module_globals p = import_module env"
    unfolding p_def by (simp add: start_process_def)
  obtain k where k: "issued (main (import_module env) (logged session) (w, [])) =
      take k (main_plan (import_module env))"
    using main_issued_prefix [of "import_module env" session w "[]"] by auto
  obtain k' where k': "issued (main (import_module env) (logged session') (w', [])) =
      take k' (main_plan (import_module env))"
    using main_issued_prefix [of "import_module env" session' w' "[]"] by auto
  have both: "\<forall>rs rs'. fst (call_main p session w) = Inr rs \<and> fst (call_main p' session' w') = Inr rs' \<longrightarrow>
        issued (call_main p (logged session) (w, [])) =
        issued (call_main p' (logged session') (w', []))"
    using main_issued_complete [of "import_module env" session w _ "[]"]
      main_issued_complete [of "import_module env" session' w' _ "[]"]
    by (simp add: call_main_def same first)
  from same first k k' both show ?thesis
    by (auto simp: call_main_def)
qed

theorem statements_fixed_at_import_witness:
  "fst (call_main (start_process Map.empty) (\<lambda>d w. (Inr [], w)) ()) = Inr [] \<and>
   fst (call_main (fold change_env [Putenv ''SF_DB'' ''OTHER_DB'', Unsetenv ''S3_URL'']
          (start_process Map.empty)) (\<lambda>d w. (Inr [], w)) ()) = Inr [] \<and>
   issued (call_main (start_process Map.empty) (logged (\<lambda>d w. (Inr [], w))) ((), [])) =
   issued (call_main (fold change_env [Putenv ''SF_DB'' ''OTHER_DB'', Unsetenv ''S3_URL'']
          (start_process Map.empty)) (logged (\<lambda>d w. (Inr [], w))) ((), [])) \<and>
   DB (module_globals (fold change_env [Putenv ''SF_DB'' ''OTHER_DB'', Unsetenv ''S3_URL'']
          (start_process Map.empty))) = ''DATA_PIPELINE_DB'' \<and>
   DB (import_module (environ_of (fold change_env [Putenv ''SF_DB'' ''OTHER_DB'', Unsetenv ''S3_URL'']
          (start_process Map.empty)))) = ''OTHER_DB''"
proof -
  have ok: "fst (main g (\<lambda>d w. (Inr [], w)) ()) = Inr []" for g
    by (simp add: main_run_all main_plan_def)
  have g: "DB (import_module Map.empty) = ''DATA_PIPELINE_DB''"
    by (simp add: import_module_def getenv_def Let_def)
  have e: "DB (import_module (environ_of (fold change_env
      [Putenv ''SF_DB'' ''OTHER_DB'', Unsetenv ''S3_URL''] (start_process Map.empty)))) = ''OTHER_DB''"
    by (simp add: import_module_def getenv_def start_process_def Let_def)
  show ?thesis
    using statements_fixed_at_import [of "[Putenv ''SF_DB'' ''OTHER_DB'', Unsetenv ''S3_URL'']"
        Map.empty "\<lambda>d w. (Inr [], w)" "()" "\<lambda>d w. (Inr [], w)" "()"] ok g e
    by (simp add: call_main_def)
qed

section \<open>Claims about the order of execution\<close>

text \<open>
  C1. \<^verbatim>\<open>main\<close> is the straight-line run of one fixed list of seven steps:
  create database, create schema, create file format, create stage, create
  table, bulk copy, read with the two derived columns limited to ten rows.
  For every session and every state, \<^verbatim>\<open>main\<close> equals the sequential run of that
  list, each step on the state the previous step left; the steps are pairwise
  different, so none is issued twice; what an invocation issues is an initial
  part of the list, and an invocation that returns has issued all seven, in
  order. (A step that raises ends the invocation there, the error going to
  the caller.)
\<close>

theorem main_fixed_linear_sequence:
  "main g session w = run_all session (main_plan g) w \<and>
   main_plan g =
     [Sql (sql_create_database g), Sql (sql_create_schema g),
      Sql (sql_create_file_format g), Sql (sql_create_stage g),
      Sql (sql_create_table g), Sql (sql_copy_into g),
      Limit (With_column
        (With_column (Table (FQ_TABLE g)) ''Amount_num'' (Cast (Col ''Amount'') ''DOUBLE''))
        ''Profit_num'' (Cast (Col ''Profit'') ''DOUBLE'')) 10] \<and>
   distinct (main_plan g) \<and>
   (\<exists>k. 1 \<le> k \<and> k \<le> 7 \<and>
        issued (main g (logged session) (w, tr)) = tr @ take k (main_plan g)) \<and>
   (\<forall>rs. fst (main g session w) = Inr rs \<longrightarrow>
        issued (main g (logged session) (w, tr)) = tr @ main_plan g)"
  using main_run_all [of g session w] main_plan_distinct [of g]
    main_issued_prefix [of g session w tr] main_issued_complete [of g session w _ tr]
  by (simp add: main_plan_def df_transformed_def)

theorem main_fixed_linear_sequence_witness:
  "fst (main (import_module Map.empty) (\<lambda>d w. (Inr [], w)) ()) = Inr [] \<and>
   issued (main (import_module Map.empty) (logged (\<lambda>d w. (Inr [], w))) ((), [])) =
     main_plan (import_module Map.empty) \<and>
   issued (main (import_module Map.empty) (logged offline) ((), [])) =
     [Sql ''CREATE DATABASE IF NOT EXISTS DATA_PIPELINE_DB'']"
proof -
  have ok: "fst (main (import_module Map.empty) (\<lambda>d w. (Inr [], w)) ()) = Inr []"
    by (simp add: main_run_all main_plan_def)
  have off: "issued (main (import_module Map.empty) (logged offline) ((), [])) =
     [Sql ''CREATE DATABASE IF NOT EXISTS DATA_PIPELINE_DB'']"
    by (simp add: main_run_all main_plan_def offline_def issued_def sql_create_database_def
        import_module_def getenv_def Let_def)
  from main_fixed_linear_sequence [of "import_module Map.empty" "\<lambda>d w. (Inr [], w)" "()" "[]"] ok off
  show ?thesis by simp
qed

section \<open>Claims about the statements\<close>

text \<open>
  C7. The file-format statement of \<^verbatim>\<open>main\<close> is an idempotent create of a CSV
  parsing profile with field delimiter \<^verbatim>\<open>,\<close>, one header row skipped and empty
  fields read as null: these are the options the statement text carries, this
  is the profile they denote, and a warehouse that had no format of that name
  holds this profile under the name after the statement and after \<^verbatim>\<open>main\<close>.
\<close>

theorem file_format_is_csv_profile:
  assumes "wf_globals g"
  shows
    "parse_sql (sql_create_file_format g) =
       Some (Create_file_format True (FQ_FILE_FORMAT g)
         [(''TYPE'', Opt_word ''CSV''), (''FIELD_DELIMITER'', Opt_lit '',''),
          (''SKIP_HEADER'', Opt_word ''1''), (''EMPTY_FIELD_AS_NULL'', Opt_word ''TRUE'')]) \<and>
     file_format_of
         [(''TYPE'', Opt_word ''CSV''), (''FIELD_DELIMITER'', Opt_lit '',''),
          (''SKIP_HEADER'', Opt_word ''1''), (''EMPTY_FIELD_AS_NULL'', Opt_word ''TRUE'')]
         default_file_format =
       Some \<lparr> format_type = ''CSV'', field_delimiter = '','', skip_header = 1,
              empty_field_as_null = True \<rparr> \<and>
     (map_of (file_formats w) (FQ_FILE_FORMAT g) = None \<longrightarrow>
        map_of (file_formats (snd (warehouse D (Sql (sql_create_file_format g)) w))) (FQ_FILE_FORMAT g) =
          Some \<lparr> format_type = ''CSV'', field_delimiter = '','', skip_header = 1,
                 empty_field_as_null = True \<rparr> \<and>
        map_of (file_formats (snd (main g (warehouse D) w))) (FQ_FILE_FORMAT g) =
          Some \<lparr> format_type = ''CSV'', field_delimiter = '','', skip_header = 1,
                 empty_field_as_null = True \<rparr>)"
proof -
  have formats: "file_formats (snd (main g (warehouse D) w)) =
      ensure_entry (FQ_FILE_FORMAT g) csv_profile (file_formats w)"
    using main_world [OF assms, of D w] by (auto simp: provisioned_def loaded_def)
  show ?thesis
    using assms csv_profile_of_options
    by (simp add: parse_create_file_format wf_globalsD run_create_file_format formats
        map_of_ensure_entry csv_profile_def del: file_format_of.simps)
qed

theorem file_format_is_csv_profile_witness:
  "wf_globals (import_module Map.empty) \<and>
   map_of (file_formats empty_world) (FQ_FILE_FORMAT (import_module Map.empty)) = None \<and>
   map_of (file_formats (snd (main (import_module Map.empty) (warehouse simple_dialect) empty_world)))
       ''DATA_PIPELINE_DB.CSV_FILES.csv_format'' =
     Some \<lparr> format_type = ''CSV'', field_delimiter = '','', skip_header = 1,
            empty_field_as_null = True \<rparr>"
proof -
  have fq: "FQ_FILE_FORMAT (import_module Map.empty) = ''DATA_PIPELINE_DB.CSV_FILES.csv_format''"
    by (simp add: import_module_def getenv_def Let_def)
  have absent: "map_of (file_formats empty_world) (FQ_FILE_FORMAT (import_module Map.empty)) = None"
    by (simp add: empty_world_def)
  from file_format_is_csv_profile [OF wf_default, of empty_world simple_dialect] absent fq wf_default
  show ?thesis by simp
qed

text \<open>
  C5, as the spec states it: every column of the target table is created as
  text and all values are loaded as text. The statement of \<^verbatim>\<open>main\<close> declares
  \<^verbatim>\<open>Amount\<close>, \<^verbatim>\<open>Profit\<close> and \<^verbatim>\<open>Quantity\<close> as \<^verbatim>\<open>NUMBER\<close>; the table it creates
  has three numeric columns, and a loaded row holds numbers in them.
\<close>

theorem amount_column_is_not_text:
  "parse_sql (sql_create_table (import_module Map.empty)) =
     Some (Create_table True ''DATA_PIPELINE_DB.CSV_FILES.ORDERS''
       [(''ID'', ''STRING''), (''Amount'', ''NUMBER''), (''Profit'', ''NUMBER''),
        (''Quantity'', ''NUMBER''), (''Category'', ''STRING''), (''Sub_Category'', ''STRING'')]) \<and>
   map_option table_columns
     (map_of (tables (snd (warehouse simple_dialect
        (Sql (sql_create_table (import_module Map.empty))) empty_world)))
        ''DATA_PIPELINE_DB.CSV_FILES.ORDERS'') =
     Some [(''ID'', T_string), (''Amount'', T_number), (''Profit'', T_number),
           (''Quantity'', T_number), (''Category'', T_string), (''Sub_Category'', T_string)] \<and>
   map_option table_rows
     (map_of (tables (snd (main (import_module Map.empty) (warehouse simple_dialect)
        (bucket_with ''ID,Amount,Profit,Quantity,Category,Sub_Category\<newline>B-2,40,-7,3,Furniture,Chairs\<newline>''))))
        ''DATA_PIPELINE_DB.CSV_FILES.ORDERS'') =
     Some [[VStr ''B-2'', VNum 40, VNum (- 7), VNum 3, VStr ''Furniture'', VStr ''Chairs'']]"
  by code_simp

text \<open>
  C5, amended. The target table created by \<^verbatim>\<open>main\<close> has the fixed six-column
  shape \<^verbatim>\<open>ID\<close>, \<^verbatim>\<open>Amount\<close>, \<^verbatim>\<open>Profit\<close>, \<^verbatim>\<open>Quantity\<close>, \<^verbatim>\<open>Category\<close>, \<^verbatim>\<open>Sub_Category\<close>,
  in which \<^verbatim>\<open>ID\<close>, \<^verbatim>\<open>Category\<close> and \<^verbatim>\<open>Sub_Category\<close> are created as text and
  \<^verbatim>\<open>Amount\<close>, \<^verbatim>\<open>Profit\<close> and \<^verbatim>\<open>Quantity\<close> as numbers; every loaded row holds text
  or null in the text columns and a number or null in the numeric columns
  (given that the table was absent before the run, or had these columns and
  rows of their types).
\<close>

theorem table_columns_as_declared:
  assumes "wf_globals g"
  shows
    "parse_sql (sql_create_table g) =
       Some (Create_table True (FQ_TABLE g)
         [(''ID'', ''STRING''), (''Amount'', ''NUMBER''), (''Profit'', ''NUMBER''),
          (''Quantity'', ''NUMBER''), (''Category'', ''STRING''), (''Sub_Category'', ''STRING'')]) \<and>
     (map_of (tables w) (FQ_TABLE g) = None \<longrightarrow>
        map_of (tables (snd (warehouse D (Sql (sql_create_table g)) w))) (FQ_TABLE g) =
          Some \<lparr> table_columns =
                   [(''ID'', T_string), (''Amount'', T_number), (''Profit'', T_number),
                    (''Quantity'', T_number), (''Category'', T_string), (''Sub_Category'', T_string)],
                 table_rows = [] \<rparr>) \<and>
     (orders_table_ok g w \<longrightarrow>
        (\<exists>tab. map_of (tables (snd (main g (warehouse D) w))) (FQ_TABLE g) = Some tab \<and>
           table_columns tab =
             [(''ID'', T_string), (''Amount'', T_number), (''Profit'', T_number),
              (''Quantity'', T_number), (''Category'', T_string), (''Sub_Category'', T_string)] \<and>
           (\<forall>vs \<in> set (table_rows tab).
              list_all2 has_type [T_string, T_number, T_number, T_number, T_string, T_string] vs)))"
proof -
  have after: "\<exists>tab. map_of (tables (snd (main g (warehouse D) w))) (FQ_TABLE g) = Some tab \<and>
           table_columns tab = orders_columns \<and>
           list_all (conforms (map snd orders_columns)) (table_rows tab)"
    if ok: "orders_table_ok g w"
    using main_keeps_table_typed [OF assms ok] .
  show ?thesis
    using assms after
    by (auto simp: parse_create_table wf_globalsD run_create_table map_of_ensure_entry
        orders_columns_def conforms_def list_all_iff)
qed

theorem table_columns_as_declared_witness:
  "wf_globals (import_module Map.empty) \<and>
   map_of (tables (bucket_with ''ID,Amount,Profit,Quantity,Category,Sub_Category\<newline>B-2,40,-7,,Furniture,Chairs\<newline>''))
     (FQ_TABLE (import_module Map.empty)) = None \<and>
   orders_table_ok (import_module Map.empty)
     (bucket_with ''ID,Amount,Profit,Quantity,Category,Sub_Category\<newline>B-2,40,-7,,Furniture,Chairs\<newline>'') \<and>
   map_of (tables (snd (main (import_module Map.empty) (warehouse simple_dialect)
       (bucket_with ''ID,Amount,Profit,Quantity,Category,Sub_Category\<newline>B-2,40,-7,,Furniture,Chairs\<newline>''))))
     (FQ_TABLE (import_module Map.empty)) =
     Some \<lparr> table_columns =
              [(''ID'', T_string), (''Amount'', T_number), (''Profit'', T_number),
               (''Quantity'', T_number), (''Category'', T_string), (''Sub_Category'', T_string)],
            table_rows =
              [[VStr ''B-2'', VNum 40, VNum (- 7), VNull, VStr ''Furniture'', VStr ''Chairs'']] \<rparr> \<and>
   list_all2 has_type [T_string, T_number, T_number, T_number, T_string, T_string]
     [VStr ''B-2'', VNum 40, VNum (- 7), VNull, VStr ''Furniture'', VStr ''Chairs'']"
proof -
  let ?w = "bucket_with ''ID,Amount,Profit,Quantity,Category,Sub_Category\<newline>B-2,40,-7,,Furniture,Chairs\<newline>''"
  have absent: "map_of (tables ?w) (FQ_TABLE (import_module Map.empty)) = None"
    by (simp add: bucket_with_def empty_world_def)
  have ok: "orders_table_ok (import_module Map.empty) ?w"
    by (simp add: orders_table_ok_def bucket_with_def empty_world_def)
  have run: "map_of (tables (snd (main (import_module Map.empty) (warehouse simple_dialect) ?w)))
     (FQ_TABLE (import_module Map.empty)) =
     Some \<lparr> table_columns =
              [(''ID'', T_string), (''Amount'', T_number), (''Profit'', T_number),
               (''Quantity'', T_number), (''Category'', T_string), (''Sub_Category'', T_string)],
            table_rows =
              [[VStr ''B-2'', VNum 40, VNum (- 7), VNull, VStr ''Furniture'', VStr ''Chairs'']] \<rparr>"
    by code_simp
  from table_columns_as_declared [OF wf_default, of ?w simple_dialect] absent ok run wf_default
  show ?thesis by simp
qed

section \<open>Claims about the returned sample\<close>

text \<open>
  C3. Whenever \<^verbatim>\<open>main\<close> returns rows, there are at most ten of them, exactly
  the smaller of ten and the number of rows the target table holds; so the
  result is empty only if the table is empty.
\<close>

theorem sample_at_most_ten_rows:
  assumes "main g (warehouse D) w = (Inr rs, w')"
  shows "length rs \<le> 10 \<and>
         (\<exists>tab. map_of (tables w') (FQ_TABLE g) = Some tab \<and>
            length rs = min 10 (length (table_rows tab)) \<and>
            (rs = [] \<longleftrightarrow> table_rows tab = []))"
proof -
  from main_returns_read [OF assms] obtain w6 where
    "warehouse D (Limit (df_transformed g) 10) w6 = (Inr rs, w')" by blast
  then have "eval_df D w' (Limit (df_transformed g) 10) = Inr rs"
    by (auto simp: run_read simp del: eval_df.simps)
  from read_length [OF this] obtain tab where
    tab: "map_of (tables w') (FQ_TABLE g) = Some tab"
    and len: "length rs = min 10 (length (table_rows tab))" by blast
  from len have "(rs = []) = (table_rows tab = [])"
    by (metis length_0_conv min_0R zero_neq_numeral min_def)
  with tab len show ?thesis by auto
qed

theorem sample_at_most_ten_rows_witness:
  "fst (main (import_module Map.empty) (warehouse simple_dialect) twelve_rows) =
     Inr (replicate 10 (sample_row
       [VStr ''B-1'', VNum 5, VNum 2, VNum 1, VStr ''Furniture'', VStr ''Chairs''])) \<and>
   (\<exists>tab. map_of (tables (snd (main (import_module Map.empty) (warehouse simple_dialect) twelve_rows)))
            (FQ_TABLE (import_module Map.empty)) = Some tab \<and>
          length (table_rows tab) = 12) \<and>
   fst (main (import_module Map.empty) (warehouse simple_dialect) (bucket_with [])) = Inr []"
proof -
  let ?rs = "replicate 10 (sample_row
       [VStr ''B-1'', VNum 5, VNum 2, VNum 1, VStr ''Furniture'', VStr ''Chairs''])"
  have run: "fst (main (import_module Map.empty) (warehouse simple_dialect) twelve_rows) = Inr ?rs"
    by code_simp
  have rows: "map_option (\<lambda>tab. length (table_rows tab))
      (map_of (tables (snd (main (import_module Map.empty) (warehouse simple_dialect) twelve_rows)))
            (FQ_TABLE (import_module Map.empty))) = Some 12"
    by code_simp
  have none: "fst (main (import_module Map.empty) (warehouse simple_dialect) (bucket_with [])) = Inr []"
    by code_simp
  have "main (import_module Map.empty) (warehouse simple_dialect) twelve_rows =
      (Inr ?rs, snd (main (import_module Map.empty) (warehouse simple_dialect) twelve_rows))"
    using run by (metis prod.collapse)
  from sample_at_most_ten_rows [OF this] run rows none show ?thesis by auto
qed

section \<open>Claims about provisioning\<close>



section \<open>Claims about the bulk load\<close>




section \<open>Claims about the derived columns\<close>




section \<open>Claims about the fields of a returned row\<close>




end
